theory Spec2Isabelle
  imports Complex_Main "HOL-Library.Multiset"
begin

section \<open>Data model\<close>

text \<open>
  The program works on pandas data frames. A cell of a frame is a number, a string or
  the missing value (NaN). Numbers are modelled as exact rationals: the binary
  floating-point representation of pandas' float64 columns is not part of the model.
  A frame is a list of column labels and a list of rows; a row gives a cell for every
  label, and only the labels listed in \<open>columns\<close> are ever read (a read of any other
  label is a KeyError in the operations below, or is guarded by a membership test).
\<close>

datatype cell = Num rat | Str string | Missing

type_synonym row = "string \<Rightarrow> cell"

record dataframe =
  columns :: "string list"
  rows :: "row list"

datatype error = KeyError | TypeError | IndexError

text \<open>The scoring dictionary of \<open>create_fantasy_scoring_inputs\<close>: stat label to weight.\<close>

type_synonym weights = "string \<rightharpoonup> rat"

definition bind_error :: "error + 'a \<Rightarrow> ('a \<Rightarrow> error + 'b) \<Rightarrow> error + 'b" where
  "bind_error m f = (case m of Inl e \<Rightarrow> Inl e | Inr x \<Rightarrow> f x)"

fun traverse :: "('a \<Rightarrow> error + 'b) \<Rightarrow> 'a list \<Rightarrow> error + 'b list" where
  "traverse f [] = Inr []"
| "traverse f (x # xs) =
     (case f x of
        Inl e \<Rightarrow> Inl e
      | Inr y \<Rightarrow> (case traverse f xs of Inl e \<Rightarrow> Inl e | Inr ys \<Rightarrow> Inr (y # ys)))"

section \<open>Cell arithmetic\<close>

text \<open>
  A number times a weight is a number, NaN times a weight is NaN, and a string times a
  float weight raises TypeError. The running total is a numeric column, so it holds
  numbers or NaN; NaN absorbs addition.
\<close>

fun mul_cell :: "cell \<Rightarrow> rat \<Rightarrow> error + cell" where
  "mul_cell (Num a) w = Inr (Num (a * w))"
| "mul_cell Missing w = Inr Missing"
| "mul_cell (Str s) w = Inl TypeError"

fun add_cell :: "cell \<Rightarrow> cell \<Rightarrow> error + cell" where
  "add_cell (Num a) (Num b) = Inr (Num (a + b))"
| "add_cell (Num a) Missing = Inr Missing"
| "add_cell Missing (Num b) = Inr Missing"
| "add_cell Missing Missing = Inr Missing"
| "add_cell (Str s) c = Inl TypeError"
| "add_cell c (Str s) = Inl TypeError"

text \<open>
  \<open>Series.round(1)\<close> is numpy's rounding: scale by ten, round to the nearest integer
  with ties going to the even integer, scale back.
\<close>

definition round_half_even :: "rat \<Rightarrow> int" where
  "round_half_even q =
     (let f = \<lfloor>q\<rfloor>; d = q - of_int f
      in if d < 1 / 2 then f
         else if 1 / 2 < d then f + 1
         else if even f then f else f + 1)"

definition round1 :: "rat \<Rightarrow> rat" where
  "round1 x = of_int (round_half_even (x * 10)) / 10"

fun round_cell :: "cell \<Rightarrow> cell" where
  "round_cell (Num a) = Num (round1 a)"
| "round_cell Missing = Missing"
| "round_cell (Str s) = Str s"

section \<open>calculate_fantasy_points\<close>

abbreviation fantasy_points :: string where
  "fantasy_points \<equiv> ''Fantasy Points''"

text \<open>\<open>df[c] = ...\<close>: an existing column is overwritten, a new one is appended.\<close>

definition assign_column :: "string \<Rightarrow> (row \<Rightarrow> cell) \<Rightarrow> dataframe \<Rightarrow> dataframe" where
  "assign_column c f df =
     \<lparr>columns = (if c \<in> set (columns df) then columns df else columns df @ [c]),
      rows = map (\<lambda>r. r(c := f r)) (rows df)\<rparr>"

text \<open>One row of \<open>df['Fantasy Points'] += df[s] * scoring[s]\<close>.\<close>

definition add_weighted :: "string \<Rightarrow> rat \<Rightarrow> row \<Rightarrow> error + row" where
  "add_weighted s w r =
     bind_error (mul_cell (r s) w) (\<lambda>p.
     bind_error (add_cell (r fantasy_points) p) (\<lambda>v.
     Inr (r(fantasy_points := v))))"

text \<open>
  One guarded statement
  \<open>if s in df.columns and s in scoring: df['Fantasy Points'] += df[s] * scoring[s]\<close>.
  The column operation raises as soon as one cell does.
\<close>

definition add_stat :: "weights \<Rightarrow> string \<Rightarrow> dataframe \<Rightarrow> error + dataframe" where
  "add_stat scoring s df =
     (if s \<in> set (columns df)
      then (case scoring s of
              None \<Rightarrow> Inr df
            | Some w \<Rightarrow> bind_error (traverse (add_weighted s w) (rows df))
                          (\<lambda>rs. Inr (df\<lparr>rows := rs\<rparr>)))
      else Inr df)"

text \<open>The guarded statements of one branch, in the order of the source.\<close>

fun add_stats :: "weights \<Rightarrow> string list \<Rightarrow> dataframe \<Rightarrow> error + dataframe" where
  "add_stats scoring [] df = Inr df"
| "add_stats scoring (s # ss) df = bind_error (add_stat scoring s df) (add_stats scoring ss)"

definition skater_stats :: "string list" where
  "skater_stats = [''G'', ''A'', ''PIM'', ''PPG'', ''PPP'', ''SOG'', ''HIT'', ''BLK'']"

definition goalie_stats :: "string list" where
  "goalie_stats = [''W'', ''SV'', ''SO'']"

text \<open>Lines 89 to 117: the copy with the zeroed column, then the branch on \<open>player_type\<close>.\<close>

definition accumulate_points :: "dataframe \<Rightarrow> weights \<Rightarrow> string \<Rightarrow> error + dataframe" where
  "accumulate_points df scoring player_type =
     (let df0 = assign_column fantasy_points (\<lambda>r. Num 0) df
      in if player_type = ''skater''
         then add_stats scoring skater_stats df0
         else add_stats scoring goalie_stats df0)"

text \<open>Line 119: the rounding of the column, applied once to the accumulated total.\<close>

definition round_points :: "dataframe \<Rightarrow> dataframe" where
  "round_points df = assign_column fantasy_points (\<lambda>r. round_cell (r fantasy_points)) df"

definition calculate_fantasy_points :: "dataframe \<Rightarrow> weights \<Rightarrow> string \<Rightarrow> error + dataframe" where
  "calculate_fantasy_points df scoring player_type =
     bind_error (accumulate_points df scoring player_type) (\<lambda>d. Inr (round_points d))"

text \<open>The column of a result, for reading it off.\<close>

definition column_of :: "string \<Rightarrow> error + dataframe \<Rightarrow> error + cell list" where
  "column_of c res = bind_error res (\<lambda>d. Inr (map (\<lambda>r. r c) (rows d)))"


subsection \<open>The same function on references\<close>

text \<open>
  The source rebinds \<open>df\<close> to \<open>df.copy()\<close> and then assigns into \<open>df\<close>. To see which
  object the assignments reach, frames live in a store and a frame is named by its
  address. \<open>df.copy()\<close> allocates a new frame with the contents of the old one; every
  later statement reads and writes the frame at the address \<open>df\<close> now holds. The
  result carries the store also when a statement raises.
\<close>

type_synonym store = "dataframe list"

definition df_copy :: "nat \<Rightarrow> store \<Rightarrow> store \<times> nat" where
  "df_copy a h = (h @ [h ! a], length h)"

fun run_statements ::
  "nat \<Rightarrow> (dataframe \<Rightarrow> error + dataframe) list \<Rightarrow> store \<Rightarrow> store \<times> (error + unit)" where
  "run_statements d [] h = (h, Inr ())"
| "run_statements d (f # fs) h =
     (case f (h ! d) of
        Inl e \<Rightarrow> (h, Inl e)
      | Inr t \<Rightarrow> run_statements d fs (h[d := t]))"

definition calculate_fantasy_points_ref ::
  "store \<Rightarrow> nat \<Rightarrow> weights \<Rightarrow> string \<Rightarrow> store \<times> (error + nat)" where
  "calculate_fantasy_points_ref h a scoring player_type =
     (let (h1, d) = df_copy a h;
          body = [\<lambda>df. Inr (assign_column fantasy_points (\<lambda>r. Num 0) df)]
                 @ map (add_stat scoring)
                     (if player_type = ''skater'' then skater_stats else goalie_stats)
                 @ [\<lambda>df. Inr (round_points df)]
      in case run_statements d body h1 of
           (h2, Inl e) \<Rightarrow> (h2, Inl e)
         | (h2, Inr u) \<Rightarrow> (h2, Inr d))"

section \<open>The cleaning steps of load_data\<close>

text \<open>
  Lines 26 to 44, on the two frames as \<open>read_csv\<close> and the renaming of the labels left
  them. \<open>pd.to_numeric(..., errors='coerce')\<close> belongs to the library: its reading of a
  string is the parameter \<open>parse\<close>, with \<open>None\<close> for a string that is no number.
\<close>

definition numeric_cols_skaters :: "string list" where
  "numeric_cols_skaters =
     [''VAR'', ''GP'', ''G'', ''A'', ''PTS'', ''(+/-)'', ''PIM'', ''EV'',
      ''PPG'', ''PPA'', ''PPP'', ''SOG'', ''ATOI'', ''FOW'', ''BLK'', ''HIT'']"

definition numeric_cols_goalies :: "string list" where
  "numeric_cols_goalies =
     [''VAR'', ''GS'', ''W'', ''L'', ''T/O'', ''SO'', ''SV'', ''SV%'',
      ''GA'', ''GAA'', ''SA'']"

fun to_numeric :: "(string \<Rightarrow> rat option) \<Rightarrow> cell \<Rightarrow> cell" where
  "to_numeric parse (Num a) = Num a"
| "to_numeric parse Missing = Missing"
| "to_numeric parse (Str s) = (case parse s of Some a \<Rightarrow> Num a | None \<Rightarrow> Missing)"

definition coerce_column :: "(string \<Rightarrow> rat option) \<Rightarrow> string \<Rightarrow> dataframe \<Rightarrow> dataframe" where
  "coerce_column parse c df =
     (if c \<in> set (columns df)
      then assign_column c (\<lambda>r. to_numeric parse (r c)) df
      else df)"

fun coerce_columns :: "(string \<Rightarrow> rat option) \<Rightarrow> string list \<Rightarrow> dataframe \<Rightarrow> dataframe" where
  "coerce_columns parse [] df = df"
| "coerce_columns parse (c # cs) df = coerce_columns parse cs (coerce_column parse c df)"

fun fill_cell :: "cell \<Rightarrow> cell" where
  "fill_cell Missing = Num 0"
| "fill_cell (Num a) = Num a"
| "fill_cell (Str s) = Str s"

definition fillna :: "dataframe \<Rightarrow> dataframe" where
  "fillna df =
     df\<lparr>rows := map (\<lambda>r c. if c \<in> set (columns df) then fill_cell (r c) else r c) (rows df)\<rparr>"

definition load_data_clean ::
  "(string \<Rightarrow> rat option) \<Rightarrow> dataframe \<Rightarrow> dataframe \<Rightarrow> dataframe \<times> dataframe" where
  "load_data_clean parse skaters goalies =
     (fillna (coerce_columns parse numeric_cols_skaters skaters),
      fillna (coerce_columns parse numeric_cols_goalies goalies))"

section \<open>create_combined_rankings\<close>

definition skater_cols :: "string list" where
  "skater_cols =
     [''Player'', ''Team'', ''Pos'', ''Fantasy Points'', ''G'', ''A'', ''PTS'', ''PIM'',
      ''PPG'', ''PPP'', ''SOG'', ''HIT'', ''BLK'']"

definition goalie_cols :: "string list" where
  "goalie_cols =
     [''Player'', ''Team'', ''Fantasy Points'', ''W'', ''SV'', ''SO'', ''SV%'', ''GAA'']"

text \<open>\<open>df[cols]\<close>: a KeyError when a label is not in the frame.\<close>

definition select_columns :: "string list \<Rightarrow> dataframe \<Rightarrow> error + dataframe" where
  "select_columns cols df =
     (if set cols \<subseteq> set (columns df)
      then Inr \<lparr>columns = cols,
                rows = map (\<lambda>r c. if c \<in> set cols then r c else Missing) (rows df)\<rparr>
      else Inl KeyError)"

text \<open>\<open>for col in cols: df[col] = v\<close>.\<close>

fun assign_constants :: "string list \<Rightarrow> cell \<Rightarrow> dataframe \<Rightarrow> dataframe" where
  "assign_constants [] v df = df"
| "assign_constants (c # cs) v df = assign_constants cs v (assign_column c (\<lambda>r. v) df)"

text \<open>
  \<open>pd.concat([a, b], ignore_index=True)\<close>: the rows of \<open>a\<close>, then the rows of \<open>b\<close>; the
  labels of \<open>a\<close>, then the labels only \<open>b\<close> has; a cell one frame has no label for is NaN.
\<close>

definition concat_frames :: "dataframe \<Rightarrow> dataframe \<Rightarrow> dataframe" where
  "concat_frames a b =
     \<lparr>columns = columns a @ filter (\<lambda>c. c \<notin> set (columns a)) (columns b),
      rows = map (\<lambda>r c. if c \<in> set (columns a) then r c else Missing) (rows a)
           @ map (\<lambda>r c. if c \<in> set (columns b) then r c else Missing) (rows b)\<rparr>"

text \<open>
  \<open>sort_values(c, ascending=False).reset_index(drop=True)\<close>. The call names no sorting
  algorithm, so the library's default one orders the keys; it is the parameter
  \<open>argsort\<close>, which gives for a list of keys the positions in their new order.
\<close>

definition sort_values_desc :: "(cell list \<Rightarrow> nat list) \<Rightarrow> string \<Rightarrow> dataframe \<Rightarrow> dataframe" where
  "sort_values_desc argsort c df =
     df\<lparr>rows := map (\<lambda>i. rows df ! i) (argsort (map (\<lambda>r. r c) (rows df)))\<rparr>"

text \<open>\<open>df[c] = range(1, len(df) + 1)\<close>.\<close>

definition assign_range :: "string \<Rightarrow> dataframe \<Rightarrow> dataframe" where
  "assign_range c df =
     \<lparr>columns = (if c \<in> set (columns df) then columns df else columns df @ [c]),
      rows = map2 (\<lambda>r k. r(c := Num (of_nat k))) (rows df) [1..<length (rows df) + 1]\<rparr>"

text \<open>Lines 125 to 145: the merged and sorted frame, before the ranks are written.\<close>

definition merge_and_sort ::
  "(cell list \<Rightarrow> nat list) \<Rightarrow> dataframe \<Rightarrow> dataframe \<Rightarrow> error + dataframe" where
  "merge_and_sort argsort skaters goalies =
     bind_error (select_columns skater_cols skaters) (\<lambda>s0.
     bind_error (select_columns goalie_cols goalies) (\<lambda>g0.
       let s1 = assign_column ''Player Type'' (\<lambda>r. Str ''Skater'') s0;
           g1 = assign_column ''Player Type'' (\<lambda>r. Str ''Goalie'') g0;
           g2 = assign_column ''Pos'' (\<lambda>r. Str ''G'') g1;
           g3 = assign_constants
                  [''G'', ''A'', ''PTS'', ''PIM'', ''PPG'', ''PPP'', ''SOG'', ''HIT'', ''BLK'']
                  (Num 0) g2;
           s2 = assign_constants [''W'', ''SV'', ''SO'', ''SV%'', ''GAA''] (Num 0) s1;
           combined = concat_frames s2 g3
       in Inr (sort_values_desc argsort fantasy_points combined)))"

definition create_combined_rankings ::
  "(cell list \<Rightarrow> nat list) \<Rightarrow> dataframe \<Rightarrow> dataframe \<Rightarrow> error + dataframe" where
  "create_combined_rankings argsort skaters goalies =
     bind_error (merge_and_sort argsort skaters goalies)
       (\<lambda>combined. Inr (assign_range ''Rank'' combined))"

section \<open>The views of main\<close>

text \<open>\<open>df[mask]\<close> and \<open>df.iloc[0]\<close>: the first row, an IndexError on an empty frame.\<close>

definition filter_rows :: "(row \<Rightarrow> bool) \<Rightarrow> dataframe \<Rightarrow> dataframe" where
  "filter_rows p df = df\<lparr>rows := filter p (rows df)\<rparr>"

definition iloc0 :: "dataframe \<Rightarrow> error + row" where
  "iloc0 df = (case rows df of [] \<Rightarrow> Inl IndexError | r # rs \<Rightarrow> Inr r)"

definition head_rows :: "nat \<Rightarrow> dataframe \<Rightarrow> dataframe" where
  "head_rows n df = df\<lparr>rows := take n (rows df)\<rparr>"

text \<open>Lines 218 to 228: the four summary metrics.\<close>

record summary =
  total_players :: nat
  top_player :: cell
  top_points :: cell
  top_goalie :: cell

definition summary_metrics :: "dataframe \<Rightarrow> error + summary" where
  "summary_metrics combined_rankings =
     bind_error (iloc0 combined_rankings) (\<lambda>top.
     bind_error (iloc0 (filter_rows (\<lambda>r. r ''Pos'' = Str ''G'') combined_rankings)) (\<lambda>goalie.
     Inr \<lparr>total_players = length (rows combined_rankings),
          top_player = top ''Player'',
          top_points = top ''Fantasy Points'',
          top_goalie = goalie ''Player''\<rparr>))"

text \<open>
  Lines 308 to 342, the Defense tab: the ranked table, the rows of the chart and the
  count, or the warning when no row has position D.
\<close>

datatype tab_view = Warning string | Ranking dataframe dataframe nat

definition defense_tab :: "dataframe \<Rightarrow> tab_view" where
  "defense_tab combined_rankings =
     (let d_only = filter_rows (\<lambda>r. r ''Pos'' = Str ''D'') combined_rankings
      in if rows d_only \<noteq> []
         then (let ranked = assign_range ''D Rank'' d_only;
                   chart_data = (if 10 \<le> length (rows ranked) then head_rows 15 ranked
                                 else ranked)
               in Ranking ranked chart_data (length (rows ranked)))
         else Warning ''No Defensemen found in the data.'')"

text \<open>
  Lines 466 to 469, the team breakdown. \<open>groupby('Team')\<close> makes one group for every
  team label that is not NaN; the order in which the library lists the groups is the
  parameter \<open>sort_keys\<close>. \<open>sum()\<close> skips NaN. The frame with the two columns
  \<open>Team\<close> and \<open>Total Fantasy Points\<close> is a list of pairs; the default sorting algorithm of
  \<open>sort_values\<close> on the totals is the parameter \<open>argsort\<close>.
\<close>

fun float_value :: "cell \<Rightarrow> rat" where
  "float_value (Num a) = a"
| "float_value Missing = 0"
| "float_value (Str s) = 0"

definition group_keys :: "(cell list \<Rightarrow> cell list) \<Rightarrow> string \<Rightarrow> dataframe \<Rightarrow> cell list" where
  "group_keys sort_keys key df =
     sort_keys (remdups (filter (\<lambda>k. k \<noteq> Missing) (map (\<lambda>r. r key) (rows df))))"

definition group_sum :: "string \<Rightarrow> string \<Rightarrow> dataframe \<Rightarrow> cell \<Rightarrow> rat" where
  "group_sum key val df k =
     sum_list (map (\<lambda>r. float_value (r val)) (filter (\<lambda>r. r key = k) (rows df)))"

definition groupby_sum ::
  "(cell list \<Rightarrow> cell list) \<Rightarrow> string \<Rightarrow> string \<Rightarrow> dataframe \<Rightarrow> (cell \<times> rat) list" where
  "groupby_sum sort_keys key val df =
     map (\<lambda>k. (k, group_sum key val df k)) (group_keys sort_keys key df)"

definition team_stats ::
  "(cell list \<Rightarrow> cell list) \<Rightarrow> (rat list \<Rightarrow> nat list) \<Rightarrow> dataframe \<Rightarrow> (cell \<times> rat) list" where
  "team_stats sort_keys argsort combined_rankings =
     (let groups = groupby_sum sort_keys ''Team'' ''Fantasy Points'' combined_rankings;
          sorted = map (\<lambda>i. groups ! i) (argsort (map snd groups))
      in take 10 sorted)"

section \<open>What the specification says, and what the library is assumed to do\<close>

text \<open>
  The specification's reading of a score: the sum, over the stats of the category, of
  stat value times weight, with zero for a stat the frame has no column for and for a
  stat the weights have no entry for.
\<close>

fun is_num :: "cell \<Rightarrow> bool" where
  "is_num (Num a) = True"
| "is_num Missing = False"
| "is_num (Str s) = False"

definition stat_value :: "string list \<Rightarrow> row \<Rightarrow> string \<Rightarrow> rat" where
  "stat_value cols r s = (if s \<in> set cols then float_value (r s) else 0)"

definition weight_of :: "weights \<Rightarrow> string \<Rightarrow> rat" where
  "weight_of scoring s = (case scoring s of Some w \<Rightarrow> w | None \<Rightarrow> 0)"

definition weighted_total :: "string list \<Rightarrow> string list \<Rightarrow> weights \<Rightarrow> row \<Rightarrow> rat" where
  "weighted_total stats cols scoring r =
     (\<Sum>s\<leftarrow>stats. stat_value cols r s * weight_of scoring s)"

definition applicable_stats :: "string \<Rightarrow> string list" where
  "applicable_stats player_type =
     (if player_type = ''skater'' then skater_stats else goalie_stats)"

text \<open>
  A cleaned frame, as the data model has it: the stat columns that are present hold
  numbers. It is what the cleaning steps of \<open>load_data\<close> establish.
\<close>

definition numeric_stats :: "string list \<Rightarrow> dataframe \<Rightarrow> bool" where
  "numeric_stats stats df =
     (\<forall>r\<in>set (rows df). \<forall>s\<in>set stats. s \<in> set (columns df) \<longrightarrow> is_num (r s))"


text \<open>What a cleaned cell is, by the words of the specification.\<close>

fun cleaned_cell :: "(string \<Rightarrow> rat option) \<Rightarrow> bool \<Rightarrow> cell \<Rightarrow> cell" where
  "cleaned_cell parse numeric (Num a) = Num a"
| "cleaned_cell parse numeric Missing = Num 0"
| "cleaned_cell parse numeric (Str s) =
     (if numeric then (case parse s of Some a \<Rightarrow> Num a | None \<Rightarrow> Num 0) else Str s)"

text \<open>
  What is used of the library's sorting: the positions it returns are a rearrangement
  of all positions, and on numeric keys they run from the largest key to the smallest.
  The order it gives to equal keys is left open.
\<close>

definition rearranges :: "('a list \<Rightarrow> nat list) \<Rightarrow> bool" where
  "rearranges argsort = (\<forall>ks. mset (argsort ks) = mset [0..<length ks])"

definition sorts_descending :: "(rat list \<Rightarrow> nat list) \<Rightarrow> bool" where
  "sorts_descending argsort =
     (\<forall>ks. mset (argsort ks) = mset [0..<length ks]
         \<and> sorted_wrt (\<lambda>i j. ks ! j \<le> ks ! i) (argsort ks))"

text \<open>Sorting functions that meet these assumptions: insertion sort on the positions.\<close>

definition insertion_argsort :: "cell list \<Rightarrow> nat list" where
  "insertion_argsort ks =
     sort_key (\<lambda>i. - float_value (ks ! i)) (filter (\<lambda>i. ks ! i \<noteq> Missing) [0..<length ks])
     @ filter (\<lambda>i. ks ! i = Missing) [0..<length ks]"

definition insertion_argsort_totals :: "rat list \<Rightarrow> nat list" where
  "insertion_argsort_totals ks = sort_key (\<lambda>i. - (ks ! i)) [0..<length ks]"

text \<open>
  Two frames hold the same players in the same order: their rows correspond position
  by position and agree in every column but the points column.
\<close>

definition same_players :: "dataframe \<Rightarrow> dataframe \<Rightarrow> bool" where
  "same_players a b =
     (length (rows b) = length (rows a)
      \<and> (\<forall>i<length (rows a). \<forall>c. c \<noteq> fantasy_points \<longrightarrow> (rows b ! i) c = (rows a ! i) c))"

text \<open>The statements of a body run on a frame as a value, for comparison with the run
  on the store.\<close>

fun run_pure :: "(dataframe \<Rightarrow> error + dataframe) list \<Rightarrow> dataframe \<Rightarrow> error + dataframe" where
  "run_pure [] df = Inr df"
| "run_pure (f # fs) df = bind_error (f df) (run_pure fs)"

text \<open>
  The cleaning in the words of the specification: the same labels and the same number
  of rows; every cell is its cleaned value and is not missing; a declared numeric column
  holds numbers; any other column, the identity columns among them, keeps every value
  that was not missing.
\<close>

definition identity_cols :: "string list" where
  "identity_cols = [''Player'', ''Team'', ''Pos'']"

definition cleaned_from ::
  "(string \<Rightarrow> rat option) \<Rightarrow> string list \<Rightarrow> dataframe \<Rightarrow> dataframe \<Rightarrow> bool" where
  "cleaned_from parse numeric_cols raw out =
     (columns out = columns raw
      \<and> length (rows out) = length (rows raw)
      \<and> (\<forall>i<length (rows raw). \<forall>c\<in>set (columns raw).
            (rows out ! i) c = cleaned_cell parse (c \<in> set numeric_cols) ((rows raw ! i) c)
          \<and> (rows out ! i) c \<noteq> Missing
          \<and> (c \<in> set numeric_cols \<longrightarrow> is_num ((rows out ! i) c))
          \<and> (c \<notin> set numeric_cols \<and> (rows raw ! i) c \<noteq> Missing
               \<longrightarrow> (rows out ! i) c = (rows raw ! i) c))
      \<and> set identity_cols \<inter> set numeric_cols = {})"

text \<open>What is used of the order in which \<open>groupby\<close> lists its groups: every key stays.\<close>

definition lists_every_key :: "(cell list \<Rightarrow> cell list) \<Rightarrow> bool" where
  "lists_every_key sort_keys = (\<forall>ks. mset (sort_keys ks) = mset ks)"

text \<open>The team labels of a frame.\<close>

definition teams_of :: "dataframe \<Rightarrow> cell set" where
  "teams_of df = set (map (\<lambda>r. r ''Team'') (rows df))"

text \<open>The team breakdown before \<open>head(10)\<close> cuts it: all groups in their sorted order.\<close>

definition all_groups :: "(cell list \<Rightarrow> cell list) \<Rightarrow> (rat list \<Rightarrow> nat list) \<Rightarrow> dataframe \<Rightarrow> (cell \<times> rat) list" where
  "all_groups sort_keys argsort df =
     (let groups = groupby_sum sort_keys ''Team'' ''Fantasy Points'' df
      in map (\<lambda>i. groups ! i) (argsort (map snd groups)))"

text \<open>The warning a tab shows, for reading it off.\<close>

fun tab_warning :: "tab_view \<Rightarrow> string option" where
  "tab_warning (Warning w) = Some w"
| "tab_warning (Ranking ranked chart_data n) = None"


section \<open>Concrete inputs\<close>

definition example_skater :: row where
  "example_skater =
     (\<lambda>c. Missing)(''Player'' := Str ''A. Skater'', ''G'' := Num 2, ''A'' := Num 1,
       ''PIM'' := Num 0, ''PPG'' := Num 0, ''PPP'' := Num 0, ''SOG'' := Num 3,
       ''HIT'' := Num 1, ''BLK'' := Num 0)"

definition example_skaters :: dataframe where
  "example_skaters =
     \<lparr>columns = [''Player'', ''G'', ''A'', ''PIM'', ''PPG'', ''PPP'', ''SOG'', ''HIT'', ''BLK''],
      rows = [example_skater]\<rparr>"

definition example_weights :: weights where
  "example_weights = [''G'' \<mapsto> 6, ''A'' \<mapsto> 4, ''SOG'' \<mapsto> 1 / 4, ''HIT'' \<mapsto> 2]"

definition example_goalie :: row where
  "example_goalie =
     (\<lambda>c. Missing)(''Player'' := Str ''A. Goalie'', ''Team'' := Str ''MTL'',
       ''W'' := Num 30, ''SV'' := Num 1500, ''SO'' := Num 4, ''SV%'' := Num (23 / 25),
       ''GAA'' := Num (5 / 2))"

definition example_goalies :: dataframe where
  "example_goalies =
     \<lparr>columns = [''Player'', ''Team'', ''W'', ''SV'', ''SO'', ''SV%'', ''GAA''],
      rows = [example_goalie]\<rparr>"

definition league_weights :: weights where
  "league_weights =
     [''G'' \<mapsto> 6, ''A'' \<mapsto> 4, ''PIM'' \<mapsto> 1, ''PPG'' \<mapsto> 1, ''PPP'' \<mapsto> 2, ''SOG'' \<mapsto> 1 / 4,
      ''HIT'' \<mapsto> 2, ''BLK'' \<mapsto> 2, ''W'' \<mapsto> 2, ''SV'' \<mapsto> 1 / 2, ''SO'' \<mapsto> 2]"

definition raw_skater :: row where
  "raw_skater =
     (\<lambda>c. Missing)(''Player'' := Str ''B. Skater'', ''Pos'' := Str ''D'',
       ''G'' := Str ''12'', ''A'' := Str ''n/a'', ''HIT'' := Num 7)"

definition raw_skaters :: dataframe where
  "raw_skaters =
     \<lparr>columns = [''Player'', ''Team'', ''Pos'', ''G'', ''A'', ''HIT''], rows = [raw_skater]\<rparr>"

definition raw_goalies :: dataframe where
  "raw_goalies = \<lparr>columns = [''Player'', ''Team'', ''W'', ''SV'', ''SO''], rows = []\<rparr>"

definition example_parse :: "string \<Rightarrow> rat option" where
  "example_parse s = (if s = ''12'' then Some 12 else None)"

definition scored_skaters :: dataframe where
  "scored_skaters =
     \<lparr>columns = skater_cols,
      rows =
        [(\<lambda>c. Missing)(''Player'' := Str ''C. Center'', ''Team'' := Str ''TOR'', ''Pos'' := Str ''C'',
           ''Fantasy Points'' := Num (94 / 5), ''G'' := Num 2, ''A'' := Num 1, ''PTS'' := Num 3,
           ''PIM'' := Num 0, ''PPG'' := Num 0, ''PPP'' := Num 0, ''SOG'' := Num 3,
           ''HIT'' := Num 1, ''BLK'' := Num 0),
         (\<lambda>c. Missing)(''Player'' := Str ''L. Wing'', ''Team'' := Str ''MTL'', ''Pos'' := Str ''LW'',
           ''Fantasy Points'' := Num (51 / 2), ''G'' := Num 3, ''A'' := Num 1, ''PTS'' := Num 4,
           ''PIM'' := Num 2, ''PPG'' := Num 0, ''PPP'' := Num 0, ''SOG'' := Num 6,
           ''HIT'' := Num 0, ''BLK'' := Num 0)]\<rparr>"


definition no_goalies :: dataframe where
  "no_goalies = \<lparr>columns = goalie_cols, rows = []\<rparr>"

definition team_row :: "string \<Rightarrow> rat \<Rightarrow> row" where
  "team_row t p =
     (\<lambda>c. Missing)(''Player'' := Str (''Player of '' @ t), ''Team'' := Str t,
       ''Fantasy Points'' := Num p)"

definition eleven_teams :: dataframe where
  "eleven_teams =
     \<lparr>columns = [''Player'', ''Team'', ''Fantasy Points''],
      rows = [team_row ''T01'' 11, team_row ''T02'' 10, team_row ''T03'' 9, team_row ''T04'' 8,
              team_row ''T05'' 7, team_row ''T06'' 6, team_row ''T07'' 5, team_row ''T08'' 4,
              team_row ''T09'' 3, team_row ''T10'' 2, team_row ''T11'' 1]\<rparr>"

definition two_teams :: dataframe where
  "two_teams =
     \<lparr>columns = [''Player'', ''Team'', ''Fantasy Points''],
      rows = [team_row ''MTL'' 5, team_row ''TOR'' 9, team_row ''MTL'' (3 / 2)]\<rparr>"

section \<open>The score is the weighted sum\<close>

lemma traverse_map_Inr:
  "(\<And>x. x \<in> set xs \<Longrightarrow> f (h x) = Inr (g x)) \<Longrightarrow> traverse f (map h xs) = Inr (map g xs)"
  by (induction xs) simp_all

lemma is_num_float_value: "is_num c \<Longrightarrow> c = Num (float_value c)"
  by (cases c) simp_all

lemma add_weighted_num:
  assumes "s \<noteq> fantasy_points" "r s = Num a"
  shows "add_weighted s w (r(fantasy_points := Num t)) = Inr (r(fantasy_points := Num (t + a * w)))"
  using assms by (simp add: add_weighted_def bind_error_def)

lemma add_stat_step:
  assumes ne: "s \<noteq> fantasy_points"
    and num: "\<forall>r\<in>set (rows df). s \<in> set (columns df) \<longrightarrow> is_num (r s)"
  shows "add_stat scoring s (assign_column fantasy_points (\<lambda>r. Num (acc r)) df)
       = Inr (assign_column fantasy_points
               (\<lambda>r. Num (acc r + stat_value (columns df) r s * weight_of scoring s)) df)"
proof (cases "s \<in> set (columns df)")
  case False
  with ne show ?thesis
    by (simp add: add_stat_def assign_column_def stat_value_def)
next
  case present: True
  show ?thesis
  proof (cases "scoring s")
    case None
    with ne present show ?thesis
      by (simp add: add_stat_def assign_column_def weight_of_def)
  next
    case (Some w)
    have row: "add_weighted s w (r(fantasy_points := Num (acc r)))
        = Inr (r(fantasy_points := Num (acc r + stat_value (columns df) r s * weight_of scoring s)))"
      if "r \<in> set (rows df)" for r
    proof -
      from num that present have "is_num (r s)" by blast
      then have a: "r s = Num (float_value (r s))"
        by (rule is_num_float_value)
      from present Some
      have "stat_value (columns df) r s * weight_of scoring s = float_value (r s) * w"
        by (simp add: stat_value_def weight_of_def)
      with add_weighted_num [of s r "float_value (r s)" w "acc r"] ne a show ?thesis by simp
    qed
    have "traverse (add_weighted s w) (map (\<lambda>r. r(fantasy_points := Num (acc r))) (rows df))
        = Inr (map (\<lambda>r. r(fantasy_points := Num (acc r + stat_value (columns df) r s * weight_of scoring s))) (rows df))"
      by (rule traverse_map_Inr) (rule row)
    with ne present Some show ?thesis
      by (simp add: add_stat_def assign_column_def bind_error_def)
  qed
qed

lemma add_stats_total:
  assumes "fantasy_points \<notin> set ss" "numeric_stats ss df"
  shows "add_stats scoring ss (assign_column fantasy_points (\<lambda>r. Num (acc r)) df)
       = Inr (assign_column fantasy_points
               (\<lambda>r. Num (acc r + weighted_total ss (columns df) scoring r)) df)"
  using assms
proof (induction ss arbitrary: acc)
  case Nil
  then show ?case by (simp add: weighted_total_def)
next
  case (Cons s ss)
  from Cons.prems have ne: "s \<noteq> fantasy_points" and rest: "fantasy_points \<notin> set ss"
    by auto
  from Cons.prems have num_s: "\<forall>r\<in>set (rows df). s \<in> set (columns df) \<longrightarrow> is_num (r s)"
    and num_ss: "numeric_stats ss df"
    by (auto simp: numeric_stats_def)
  have total: "acc r + stat_value (columns df) r s * weight_of scoring s
        + weighted_total ss (columns df) scoring r
      = acc r + weighted_total (s # ss) (columns df) scoring r" for r
    by (simp add: weighted_total_def)
  have step: "add_stat scoring s (assign_column fantasy_points (\<lambda>r. Num (acc r)) df)
       = Inr (assign_column fantasy_points
               (\<lambda>r. Num (acc r + stat_value (columns df) r s * weight_of scoring s)) df)"
    using ne num_s by (rule add_stat_step)
  show ?case
    by (simp add: step bind_error_def Cons.IH [OF rest num_ss] total)
qed

lemma round_points_assign:
  "round_points (assign_column fantasy_points (\<lambda>r. Num (t r)) df)
     = assign_column fantasy_points (\<lambda>r. Num (round1 (t r))) df"
  by (simp add: round_points_def assign_column_def)

lemma fantasy_points_not_stat:
  "fantasy_points \<notin> set skater_stats" "fantasy_points \<notin> set goalie_stats"
  by (simp_all add: skater_stats_def goalie_stats_def)

lemma accumulate_points_total:
  assumes "numeric_stats (applicable_stats player_type) df"
  shows "accumulate_points df scoring player_type
       = Inr (assign_column fantasy_points
               (\<lambda>r. Num (weighted_total (applicable_stats player_type) (columns df) scoring r)) df)"
proof -
  have "fantasy_points \<notin> set (applicable_stats player_type)"
    by (simp add: applicable_stats_def fantasy_points_not_stat)
  from add_stats_total [OF this assms, of scoring "\<lambda>r. 0"]
  have "add_stats scoring (applicable_stats player_type)
          (assign_column fantasy_points (\<lambda>r. Num 0) df)
       = Inr (assign_column fantasy_points
               (\<lambda>r. Num (weighted_total (applicable_stats player_type) (columns df) scoring r)) df)"
    by simp
  then show ?thesis
    by (cases "player_type = ''skater''") (simp_all add: accumulate_points_def applicable_stats_def)
qed

lemma calculate_fantasy_points_total:
  assumes "numeric_stats (applicable_stats player_type) df"
  shows "calculate_fantasy_points df scoring player_type
       = Inr (assign_column fantasy_points
               (\<lambda>r. Num (round1 (weighted_total (applicable_stats player_type) (columns df) scoring r))) df)"
  by (simp add: calculate_fantasy_points_def accumulate_points_total [OF assms] bind_error_def
      round_points_assign)




text \<open>
  Claim C9. For the one skater with G=2, A=1, PIM=0, PPG=0, PPP=0, SOG=3, HIT=1, BLK=0 and
  the weights G=6, A=4, SOG=0.25, HIT=2, the total before rounding is 18.75; the rounding
  of the code takes 187.5 to the even integer 188, so the points are 18.8.
\<close>
theorem concrete_skater_scenario:
  "column_of fantasy_points (accumulate_points example_skaters example_weights ''skater'')
     = Inr [Num (75 / 4)]
   \<and> round_half_even (75 / 4 * 10) = 188
   \<and> column_of fantasy_points (calculate_fantasy_points example_skaters example_weights ''skater'')
     = Inr [Num (94 / 5)]"
  by code_simp

section \<open>Rounding and scaling\<close>






lemma assign_column_rows:
  "length (rows (assign_column c f df)) = length (rows df)"
  "i < length (rows df) \<Longrightarrow> rows (assign_column c f df) ! i = (rows df ! i)(c := f (rows df ! i))"
  by (simp_all add: assign_column_def)



section \<open>Any other player type is scored as a goalie\<close>




section \<open>The input frame is left alone\<close>

lemma traverse_Inr:
  "traverse f xs = Inr ys \<Longrightarrow> length ys = length xs \<and> (\<forall>i<length xs. f (xs ! i) = Inr (ys ! i))"
proof (induction xs arbitrary: ys)
  case Nil
  then show ?case by simp
next
  case (Cons x xs)
  from Cons.prems obtain y ys' where y: "f x = Inr y" and t: "traverse f xs = Inr ys'"
    and ys: "ys = y # ys'"
    by (auto split: sum.splits)
  from Cons.IH [OF t] have "length ys' = length xs" and "\<forall>i<length xs. f (xs ! i) = Inr (ys' ! i)"
    by simp_all
  with y ys show ?case
    by (auto simp: nth_Cons split: nat.splits)
qed

lemma add_weighted_frame:
  "add_weighted s w r = Inr r' \<Longrightarrow> c \<noteq> fantasy_points \<Longrightarrow> r' c = r c"
  by (auto simp: add_weighted_def bind_error_def split: sum.splits)

lemma same_players_refl: "same_players a a"
  by (simp add: same_players_def)

lemma same_players_trans: "same_players a b \<Longrightarrow> same_players b c \<Longrightarrow> same_players a c"
  by (simp add: same_players_def)

lemma same_players_assign: "same_players df (assign_column fantasy_points f df)"
  by (simp add: same_players_def assign_column_def)

lemma same_players_add_stat:
  assumes "add_stat scoring s df = Inr df'"
  shows "same_players df df'"
proof (cases "s \<in> set (columns df)")
  case False
  with assms show ?thesis
    by (simp add: add_stat_def same_players_refl)
next
  case True
  show ?thesis
  proof (cases "scoring s")
    case None
    with assms True show ?thesis
      by (simp add: add_stat_def same_players_refl)
  next
    case (Some w)
    with assms True obtain rs where rs: "traverse (add_weighted s w) (rows df) = Inr rs"
      and df': "df' = df\<lparr>rows := rs\<rparr>"
      by (auto simp: add_stat_def bind_error_def split: sum.splits)
    from traverse_Inr [OF rs] have len: "length rs = length (rows df)"
      and each: "\<forall>i<length (rows df). add_weighted s w (rows df ! i) = Inr (rs ! i)"
      by simp_all
    from each have "\<forall>i<length (rows df). \<forall>c. c \<noteq> fantasy_points \<longrightarrow> (rs ! i) c = (rows df ! i) c"
      by (blast intro: add_weighted_frame)
    with len df' show ?thesis
      by (simp add: same_players_def)
  qed
qed

lemma same_players_add_stats:
  "add_stats scoring ss df = Inr df' \<Longrightarrow> same_players df df'"
proof (induction ss arbitrary: df)
  case Nil
  then show ?case by (simp add: same_players_refl)
next
  case (Cons s ss)
  from Cons.prems obtain d where d: "add_stat scoring s df = Inr d"
    and rest: "add_stats scoring ss d = Inr df'"
    by (auto simp: bind_error_def split: sum.splits)
  from same_players_add_stat [OF d] Cons.IH [OF rest] show ?case
    by (rule same_players_trans)
qed

lemma same_players_calculate:
  assumes "calculate_fantasy_points df scoring player_type = Inr out"
  shows "same_players df out"
proof -
  from assms obtain d where acc: "accumulate_points df scoring player_type = Inr d"
    and out: "out = round_points d"
    by (auto simp: calculate_fantasy_points_def bind_error_def split: sum.splits)
  let ?df0 = "assign_column fantasy_points (\<lambda>r. Num 0) df"
  from acc have "add_stats scoring (applicable_stats player_type) ?df0 = Inr d"
    by (simp add: accumulate_points_def applicable_stats_def Let_def split: if_splits)
  then have "same_players ?df0 d"
    by (rule same_players_add_stats)
  with same_players_assign have "same_players df d"
    by (rule same_players_trans)
  moreover have "same_players d out"
    unfolding out round_points_def by (rule same_players_assign)
  ultimately show ?thesis
    by (rule same_players_trans)
qed

text \<open>The statements only write at the address they are given.\<close>

lemma run_statements_frame:
  "run_statements d fs h = (h', res) \<Longrightarrow>
     length h' = length h \<and> (\<forall>b<length h. b \<noteq> d \<longrightarrow> h' ! b = h ! b)"
proof (induction fs arbitrary: h)
  case Nil
  then show ?case by simp
next
  case (Cons f fs)
  show ?case
  proof (cases "f (h ! d)")
    case (Inl e)
    with Cons.prems show ?thesis by simp
  next
    case (Inr t)
    with Cons.prems have "run_statements d fs (h[d := t]) = (h', res)"
      by simp
    from Cons.IH [OF this] show ?thesis
      by simp
  qed
qed

lemma run_statements_value:
  "d < length h \<Longrightarrow> run_statements d fs h = (h', res) \<Longrightarrow>
     (case run_pure fs (h ! d) of Inl e \<Rightarrow> res = Inl e | Inr t \<Rightarrow> res = Inr () \<and> h' ! d = t)"
proof (induction fs arbitrary: h)
  case Nil
  then show ?case by auto
next
  case (Cons f fs)
  show ?case
  proof (cases "f (h ! d)")
    case (Inl e)
    with Cons.prems show ?thesis by (simp add: bind_error_def)
  next
    case (Inr t)
    with Cons.prems have run: "run_statements d fs (h[d := t]) = (h', res)"
      by simp
    from Cons.prems have "d < length (h[d := t])"
      by simp
    from Cons.IH [OF this run] Cons.prems Inr show ?thesis
      by (simp add: bind_error_def)
  qed
qed

lemma run_pure_append:
  "run_pure (fs @ gs) df = bind_error (run_pure fs df) (run_pure gs)"
  by (induction fs arbitrary: df) (simp_all add: bind_error_def split: sum.splits)

lemma run_pure_add_stats: "run_pure (map (add_stat scoring) ss) df = add_stats scoring ss df"
proof (induction ss arbitrary: df)
  case Nil
  show ?case by simp
next
  case (Cons s ss)
  then have "run_pure (map (add_stat scoring) ss) = add_stats scoring ss"
    by (intro ext)
  then show ?case by simp
qed

lemma run_pure_body:
  "run_pure ([\<lambda>df. Inr (assign_column fantasy_points (\<lambda>r. Num 0) df)]
             @ map (add_stat scoring)
                 (if player_type = ''skater'' then skater_stats else goalie_stats)
             @ [\<lambda>df. Inr (round_points df)]) df
   = calculate_fantasy_points df scoring player_type"
  by (simp add: run_pure_append run_pure_add_stats bind_error_def calculate_fantasy_points_def
      accumulate_points_def split: sum.splits)

text \<open>
  Claim C8. \<open>calculate_fantasy_points\<close> allocates a new frame and writes to it alone: every
  frame of the store, the input among them, is what it was, also when a statement
  raises. When it returns, it returns the address of the new frame, which holds the
  value computed from the input, with the same players in the same order.
\<close>
theorem input_frame_unchanged:
  assumes "a < length h"
    and "calculate_fantasy_points_ref h a scoring player_type = (h', res)"
  shows "length h' = length h + 1
       \<and> (\<forall>b<length h. h' ! b = h ! b)
       \<and> (case calculate_fantasy_points (h ! a) scoring player_type of
            Inl e \<Rightarrow> res = Inl e
          | Inr out \<Rightarrow> res = Inr (length h) \<and> h' ! length h = out \<and> same_players (h ! a) out)"
proof -
  let ?body = "[\<lambda>df. Inr (assign_column fantasy_points (\<lambda>r. Num 0) df)]
             @ map (add_stat scoring)
                 (if player_type = ''skater'' then skater_stats else goalie_stats)
             @ [\<lambda>df. Inr (round_points df)]"
  let ?h1 = "h @ [h ! a]"
  obtain h2 r where run: "run_statements (length h) ?body ?h1 = (h2, r)"
    by (cases "run_statements (length h) ?body ?h1")
  from assms(2) run have h': "h' = h2"
    and res: "res = (case r of Inl e \<Rightarrow> Inl e | Inr u \<Rightarrow> Inr (length h))"
    by (auto simp: calculate_fantasy_points_ref_def df_copy_def split: sum.splits)
  from run_statements_frame [OF run]
  have len: "length h2 = length h + 1"
    and frame: "\<forall>b<length h + 1. b \<noteq> length h \<longrightarrow> h2 ! b = ?h1 ! b"
    by simp_all
  from frame have keep: "\<forall>b<length h. h2 ! b = h ! b"
    by (simp add: nth_append)
  have "length h < length ?h1"
    by simp
  from run_statements_value [OF this run]
  have val: "case calculate_fantasy_points (h ! a) scoring player_type of
            Inl e \<Rightarrow> r = Inl e | Inr t \<Rightarrow> r = Inr () \<and> h2 ! length h = t"
    by (simp only: nth_append_length run_pure_body)
  have "case calculate_fantasy_points (h ! a) scoring player_type of
            Inl e \<Rightarrow> res = Inl e
          | Inr out \<Rightarrow> res = Inr (length h) \<and> h' ! length h = out \<and> same_players (h ! a) out"
  proof (cases "calculate_fantasy_points (h ! a) scoring player_type")
    case (Inl e)
    with val res show ?thesis by simp
  next
    case (Inr out)
    with val res h' same_players_calculate [OF Inr] show ?thesis by simp
  qed
  with len keep h' show ?thesis
    by simp
qed

theorem input_frame_unchanged_witness:
  "0 < length [example_goalies]
   \<and> fst (calculate_fantasy_points_ref [example_goalies] 0 league_weights ''goalie'') ! 0
       = example_goalies
   \<and> length (fst (calculate_fantasy_points_ref [example_goalies] 0 league_weights ''goalie'')) = 2
   \<and> snd (calculate_fantasy_points_ref [example_goalies] 0 league_weights ''goalie'') = Inr 1"
proof -
  obtain h' res where
    run: "calculate_fantasy_points_ref [example_goalies] 0 league_weights ''goalie'' = (h', res)"
    by (cases "calculate_fantasy_points_ref [example_goalies] 0 league_weights ''goalie''")
  have a: "0 < length [example_goalies]"
    by simp
  have "numeric_stats (applicable_stats ''goalie'') example_goalies"
    by code_simp
  then obtain out where
    out: "calculate_fantasy_points example_goalies league_weights ''goalie'' = Inr out"
    by (simp add: calculate_fantasy_points_total)
  from input_frame_unchanged [OF a run]
  have "length h' = 2" and "h' ! 0 = example_goalies" and "res = Inr 1"
    by (simp_all add: out)
  with run show ?thesis
    by simp
qed

section \<open>The cleaning steps\<close>

lemma to_numeric_idem: "to_numeric parse (to_numeric parse x) = to_numeric parse x"
  by (cases x) (simp_all split: option.splits)

lemma coerce_column_columns: "columns (coerce_column parse c df) = columns df"
  by (simp add: coerce_column_def assign_column_def)

lemma coerce_column_rows:
  "rows (coerce_column parse c df)
     = map (\<lambda>r. if c \<in> set (columns df) then r(c := to_numeric parse (r c)) else r) (rows df)"
  by (simp add: coerce_column_def assign_column_def)

lemma coerce_columns_columns: "columns (coerce_columns parse cs df) = columns df"
  by (induction cs arbitrary: df) (simp_all add: coerce_column_columns)

lemma coerce_columns_rows:
  "rows (coerce_columns parse cs df)
     = map (\<lambda>r c. if c \<in> set cs \<and> c \<in> set (columns df) then to_numeric parse (r c) else r c)
         (rows df)"
proof (induction cs arbitrary: df)
  case Nil
  show ?case by simp
next
  case (Cons c cs)
  show ?case
    by (simp add: Cons.IH coerce_column_columns coerce_column_rows)
       (auto simp: fun_eq_iff to_numeric_idem)
qed

lemma fill_to_numeric:
  "fill_cell (if numeric then to_numeric parse x else x) = cleaned_cell parse numeric x"
  by (cases x) (simp_all split: option.splits)

lemma cleaned_cell_facts:
  "cleaned_cell parse numeric x \<noteq> Missing"
  "numeric \<Longrightarrow> is_num (cleaned_cell parse numeric x)"
  "\<not> numeric \<Longrightarrow> x \<noteq> Missing \<Longrightarrow> cleaned_cell parse numeric x = x"
  by (cases x; simp split: option.splits)+

lemma clean_cell_at:
  assumes "i < length (rows df)" "c \<in> set (columns df)"
  shows "(rows (fillna (coerce_columns parse cs df)) ! i) c
       = cleaned_cell parse (c \<in> set cs) ((rows df ! i) c)"
  using assms
  by (simp add: fillna_def coerce_columns_columns coerce_columns_rows
      fill_to_numeric [symmetric])

lemma clean_cleaned_from:
  assumes "set identity_cols \<inter> set cs = {}"
  shows "cleaned_from parse cs df (fillna (coerce_columns parse cs df))"
  unfolding cleaned_from_def
proof (intro conjI allI impI ballI)
  show "columns (fillna (coerce_columns parse cs df)) = columns df"
    by (simp add: fillna_def coerce_columns_columns)
  show "length (rows (fillna (coerce_columns parse cs df))) = length (rows df)"
    by (simp add: fillna_def coerce_columns_rows)
  show "set identity_cols \<inter> set cs = {}"
    by (rule assms)
qed (simp_all add: clean_cell_at cleaned_cell_facts)

text \<open>
  Claim C6. The cleaning steps of \<open>load_data\<close> never raise, whatever the library's reading
  of strings is. Each of the two frames keeps its labels and its number of rows; a
  declared numeric column ends with numbers only, where a string that is no number has
  become 0 by way of the missing value; no cell of any column is missing; the other
  columns, Player, Team and Pos among them, keep every value that was not missing.
\<close>
theorem load_data_cleans_both_tables:
  "cleaned_from parse numeric_cols_skaters skaters
     (fst (load_data_clean parse skaters goalies))
   \<and> cleaned_from parse numeric_cols_goalies goalies
     (snd (load_data_clean parse skaters goalies))"
proof -
  have "set identity_cols \<inter> set numeric_cols_skaters = {}"
    and "set identity_cols \<inter> set numeric_cols_goalies = {}"
    by (simp_all add: identity_cols_def numeric_cols_skaters_def numeric_cols_goalies_def)
  then show ?thesis
    by (simp add: load_data_clean_def clean_cleaned_from)
qed

theorem load_data_cleans_both_tables_witness:
  "map (\<lambda>c. (rows (fst (load_data_clean example_parse raw_skaters raw_goalies)) ! 0) c)
     [''Player'', ''Team'', ''Pos'', ''G'', ''A'', ''HIT'']
     = [Str ''B. Skater'', Num 0, Str ''D'', Num 12, Num 0, Num 7]
   \<and> length (rows (fst (load_data_clean example_parse raw_skaters raw_goalies))) = 1
   \<and> columns (fst (load_data_clean example_parse raw_skaters raw_goalies))
       = [''Player'', ''Team'', ''Pos'', ''G'', ''A'', ''HIT'']
   \<and> rows (snd (load_data_clean example_parse raw_skaters raw_goalies)) = []"
proof -
  let ?out = "fst (load_data_clean example_parse raw_skaters raw_goalies)"
  let ?gout = "snd (load_data_clean example_parse raw_skaters raw_goalies)"
  from load_data_cleans_both_tables [of example_parse raw_skaters raw_goalies]
  have sk: "cleaned_from example_parse numeric_cols_skaters raw_skaters ?out"
    and go: "cleaned_from example_parse numeric_cols_goalies raw_goalies ?gout"
    by simp_all
  have cols: "columns raw_skaters = [''Player'', ''Team'', ''Pos'', ''G'', ''A'', ''HIT'']"
    and rws: "rows raw_skaters = [raw_skater]"
    by (simp_all add: raw_skaters_def)
  from sk have c: "columns ?out = columns raw_skaters" and l: "length (rows ?out) = 1"
    and cell: "\<forall>c\<in>set (columns raw_skaters).
        (rows ?out ! 0) c = cleaned_cell example_parse (c \<in> set numeric_cols_skaters) (raw_skater c)"
    by (simp_all add: cleaned_from_def rws)
  from cell have "map (\<lambda>c. (rows ?out ! 0) c) [''Player'', ''Team'', ''Pos'', ''G'', ''A'', ''HIT'']
     = map (\<lambda>c. cleaned_cell example_parse (c \<in> set numeric_cols_skaters) (raw_skater c))
         [''Player'', ''Team'', ''Pos'', ''G'', ''A'', ''HIT'']"
    by (simp add: cols)
  also have "\<dots> = [Str ''B. Skater'', Num 0, Str ''D'', Num 12, Num 0, Num 7]"
    by code_simp
  finally have cells: "map (\<lambda>c. (rows ?out ! 0) c) [''Player'', ''Team'', ''Pos'', ''G'', ''A'', ''HIT'']
     = [Str ''B. Skater'', Num 0, Str ''D'', Num 12, Num 0, Num 7]" .
  from go have "rows ?gout = []"
    by (simp add: cleaned_from_def raw_goalies_def)
  with cells l c cols show ?thesis
    by simp
qed

lemma load_data_clean_numeric:
  "numeric_stats skater_stats (fst (load_data_clean parse skaters goalies))"
  "numeric_stats goalie_stats (snd (load_data_clean parse skaters goalies))"
proof -
  have sub: "set skater_stats \<subseteq> set numeric_cols_skaters" "set goalie_stats \<subseteq> set numeric_cols_goalies"
    by (simp_all add: skater_stats_def goalie_stats_def numeric_cols_skaters_def
        numeric_cols_goalies_def)
  have gen: "numeric_stats ss (fillna (coerce_columns parse cs df))" if "set ss \<subseteq> set cs" for ss cs df
    unfolding numeric_stats_def
  proof (intro ballI impI)
    fix r s
    assume r: "r \<in> set (rows (fillna (coerce_columns parse cs df)))" and s: "s \<in> set ss"
      and c: "s \<in> set (columns (fillna (coerce_columns parse cs df)))"
    from c have c': "s \<in> set (columns df)"
      by (simp add: fillna_def coerce_columns_columns)
    from r obtain i where i: "i < length (rows (fillna (coerce_columns parse cs df)))"
      and ri: "r = rows (fillna (coerce_columns parse cs df)) ! i"
      by (auto simp: in_set_conv_nth)
    from i have i': "i < length (rows df)"
      by (simp add: fillna_def coerce_columns_rows)
    from s that have "s \<in> set cs" by blast
    with clean_cell_at [OF i' c', of parse cs] ri show "is_num (r s)"
      by (simp add: cleaned_cell_facts)
  qed
  from sub show "numeric_stats skater_stats (fst (load_data_clean parse skaters goalies))"
    "numeric_stats goalie_stats (snd (load_data_clean parse skaters goalies))"
    by (simp_all add: load_data_clean_def gen)
qed

section \<open>Ranks\<close>


lemma insertion_argsort_rearranges: "rearranges insertion_argsort"
  unfolding rearranges_def insertion_argsort_def
  by (simp del: mset_upt)




lemma select_columns_ok:
  "set cols \<subseteq> set (columns df) \<Longrightarrow>
     \<exists>d. select_columns cols df = Inr d \<and> length (rows d) = length (rows df)"
  by (simp add: select_columns_def)







section \<open>The team breakdown\<close>

lemma insertion_argsort_totals_sorts: "sorts_descending insertion_argsort_totals"
  unfolding sorts_descending_def insertion_argsort_totals_def
proof (intro allI conjI)
  fix ks :: "rat list"
  show "mset (sort_key (\<lambda>i. - (ks ! i)) [0..<length ks]) = mset [0..<length ks]"
    by (simp del: mset_upt)
  have "sorted (map (\<lambda>i. - (ks ! i)) (sort_key (\<lambda>i. - (ks ! i)) [0..<length ks]))"
    by (rule sorted_sort_key)
  then show "sorted_wrt (\<lambda>i j. ks ! j \<le> ks ! i) (sort_key (\<lambda>i. - (ks ! i)) [0..<length ks])"
    by (simp add: sorted_map)
qed

lemma identity_lists_every_key: "lists_every_key (\<lambda>ks. ks)"
  by (simp add: lists_every_key_def)

lemma group_keys_distinct:
  assumes "lists_every_key sort_keys"
  shows "distinct (group_keys sort_keys key df)"
proof -
  let ?ks = "remdups (filter (\<lambda>k. k \<noteq> Missing) (map (\<lambda>r. r key) (rows df)))"
  from assms have "mset (sort_keys ?ks) = mset ?ks"
    by (simp add: lists_every_key_def)
  then have "distinct (sort_keys ?ks) = distinct ?ks"
    by (rule mset_eq_imp_distinct_iff)
  then show ?thesis
    by (simp add: group_keys_def)
qed

lemma group_keys_set:
  assumes "lists_every_key sort_keys"
  shows "set (group_keys sort_keys key df) = set (map (\<lambda>r. r key) (rows df)) - {Missing}"
proof -
  let ?ks = "remdups (filter (\<lambda>k. k \<noteq> Missing) (map (\<lambda>r. r key) (rows df)))"
  from assms have "mset (sort_keys ?ks) = mset ?ks"
    by (simp add: lists_every_key_def)
  then have "set (sort_keys ?ks) = set ?ks"
    by (rule mset_eq_setD)
  then show ?thesis
    by (auto simp: group_keys_def)
qed

text \<open>The rows in their sorted order are a rearrangement of the rows.\<close>

lemma rearranged_mset:
  assumes "mset p = mset [0..<length xs]"
  shows "mset (map (\<lambda>i. xs ! i) p) = mset xs"
proof -
  have "mset (map (\<lambda>i. xs ! i) p) = image_mset (\<lambda>i. xs ! i) (mset p)"
    by simp
  also have "\<dots> = image_mset (\<lambda>i. xs ! i) (mset [0..<length xs])"
    by (simp only: assms)
  also have "\<dots> = mset (map (\<lambda>i. xs ! i) [0..<length xs])"
    by simp
  also have "\<dots> = mset xs"
    by (simp only: map_nth)
  finally show ?thesis .
qed

lemma rearranged_sorted:
  assumes p: "mset p = mset [0..<length xs]"
    and s: "sorted_wrt (\<lambda>i j. map f xs ! j \<le> map f xs ! i) p"
  shows "sorted_wrt (\<lambda>a b. f b \<le> f a) (map (\<lambda>i. xs ! i) p)"
proof -
  from p have "set p = set [0..<length xs]"
    by (rule mset_eq_setD)
  then have inb: "\<forall>i\<in>set p. i < length xs"
    by simp
  have "sorted_wrt (\<lambda>i j. f (xs ! j) \<le> f (xs ! i)) p"
    by (rule sorted_wrt_mono_rel [OF _ s]) (simp add: inb)
  then show ?thesis
    by (simp add: sorted_wrt_map)
qed

lemma team_stats_take: "team_stats sort_keys argsort df = take 10 (all_groups sort_keys argsort df)"
  by (simp add: team_stats_def all_groups_def Let_def)

lemma all_groups_mset:
  assumes "sorts_descending argsort"
  shows "mset (all_groups sort_keys argsort df)
       = mset (groupby_sum sort_keys ''Team'' ''Fantasy Points'' df)"
proof -
  let ?g = "groupby_sum sort_keys ''Team'' ''Fantasy Points'' df"
  from assms have "mset (argsort (map snd ?g)) = mset [0..<length ?g]"
    by (simp add: sorts_descending_def)
  then show ?thesis
    unfolding all_groups_def Let_def by (rule rearranged_mset)
qed

lemma all_groups_sorted:
  assumes "sorts_descending argsort"
  shows "sorted_wrt (\<lambda>a b. snd b \<le> snd a) (all_groups sort_keys argsort df)"
proof -
  let ?g = "groupby_sum sort_keys ''Team'' ''Fantasy Points'' df"
  from assms have "mset (argsort (map snd ?g)) = mset [0..<length ?g]"
    and "sorted_wrt (\<lambda>i j. map snd ?g ! j \<le> map snd ?g ! i) (argsort (map snd ?g))"
    by (simp_all add: sorts_descending_def)
  then show ?thesis
    unfolding all_groups_def Let_def by (rule rearranged_sorted)
qed

lemma all_groups_keys:
  assumes "sorts_descending argsort" "lists_every_key sort_keys"
  shows "distinct (map fst (all_groups sort_keys argsort df))"
    and "set (map fst (all_groups sort_keys argsort df)) = teams_of df - {Missing}"
    and "length (all_groups sort_keys argsort df) = card (teams_of df - {Missing})"
    and "\<forall>g\<in>set (all_groups sort_keys argsort df).
           snd g = group_sum ''Team'' ''Fantasy Points'' df (fst g)"
proof -
  let ?g = "groupby_sum sort_keys ''Team'' ''Fantasy Points'' df"
  let ?a = "all_groups sort_keys argsort df"
  have fsts: "map fst ?g = group_keys sort_keys ''Team'' df"
    by (simp add: groupby_sum_def comp_def)
  from all_groups_mset [OF assms(1)] have m: "mset ?a = mset ?g" .
  then have "mset (map fst ?a) = mset (map fst ?g)"
    by simp
  then have mk: "mset (map fst ?a) = mset (group_keys sort_keys ''Team'' df)"
    by (simp only: fsts)
  from mset_eq_imp_distinct_iff [OF mk] group_keys_distinct [OF assms(2)]
  show d: "distinct (map fst ?a)"
    by simp
  from mset_eq_setD [OF mk] group_keys_set [OF assms(2)]
  show s: "set (map fst ?a) = teams_of df - {Missing}"
    by (simp add: teams_of_def)
  from d have "card (set (map fst ?a)) = length (map fst ?a)"
    by (rule distinct_card)
  with s show "length ?a = card (teams_of df - {Missing})"
    by simp
  from mset_eq_setD [OF m] have "set ?a = set ?g" .
  then show "\<forall>g\<in>set ?a. snd g = group_sum ''Team'' ''Fantasy Points'' df (fst g)"
    by (auto simp: groupby_sum_def)
qed

lemma team_stats_at_most_ten: "length (team_stats sort_keys argsort df) \<le> 10"
  by (simp add: team_stats_take)

lemma sorted_wrt_take_drop:
  assumes "sorted_wrt R xs" "x \<in> set (take n xs)" "y \<in> set (drop n xs)"
  shows "R x y"
proof -
  from assms(1) have "sorted_wrt R (take n xs @ drop n xs)"
    by simp
  with assms(2,3) show ?thesis
    by (simp only: sorted_wrt_append)
qed

text \<open>
  Claim C4, as the code has it. The team breakdown keeps the first ten groups of the
  sorted totals. For a ranked collection in which no team label is missing, and for
  every sorting function of the assumed kind: the result lists distinct teams observed
  in the collection, each with the sum of its players' points; it has as many groups as
  there are teams, up to ten; when there are at most ten teams no team is omitted, a
  team with a single player included; and a team that is omitted has a total no larger
  than the total of any team that is listed.
\<close>
theorem team_stats_top_ten:
  assumes "sorts_descending argsort"
    and "lists_every_key sort_keys"
    and "Missing \<notin> teams_of df"
  shows "distinct (map fst (team_stats sort_keys argsort df))
       \<and> set (map fst (team_stats sort_keys argsort df)) \<subseteq> teams_of df
       \<and> length (team_stats sort_keys argsort df) = min 10 (card (teams_of df))
       \<and> (\<forall>g\<in>set (team_stats sort_keys argsort df).
             snd g = group_sum ''Team'' ''Fantasy Points'' df (fst g))
       \<and> (card (teams_of df) \<le> 10
             \<longrightarrow> set (map fst (team_stats sort_keys argsort df)) = teams_of df)
       \<and> (\<forall>t\<in>teams_of df. t \<notin> set (map fst (team_stats sort_keys argsort df))
             \<longrightarrow> (\<forall>g\<in>set (team_stats sort_keys argsort df).
                    group_sum ''Team'' ''Fantasy Points'' df t \<le> snd g))"
proof -
  let ?a = "all_groups sort_keys argsort df"
  let ?out = "team_stats sort_keys argsort df"
  have out: "?out = take 10 ?a"
    by (rule team_stats_take)
  from assms(3) have teams: "teams_of df - {Missing} = teams_of df"
    by simp
  note keys = all_groups_keys [OF assms(1,2), of df, unfolded teams]
  have d: "distinct (map fst ?out)"
    unfolding out take_map [symmetric] using keys(1) by (rule distinct_take)
  have "set (take 10 (map fst ?a)) \<subseteq> set (map fst ?a)"
    by (rule set_take_subset)
  with keys(2) have sub: "set (map fst ?out) \<subseteq> teams_of df"
    by (simp only: out take_map)
  have len: "length ?out = min 10 (card (teams_of df))"
    by (simp add: out keys(3) min.commute)
  have "set ?out \<subseteq> set ?a"
    unfolding out by (rule set_take_subset)
  with keys(4) have sums: "\<forall>g\<in>set ?out. snd g = group_sum ''Team'' ''Fantasy Points'' df (fst g)"
    by blast
  have all: "set (map fst ?out) = teams_of df" if "card (teams_of df) \<le> 10"
  proof -
    from that keys(3) have "take 10 ?a = ?a"
      by simp
    with keys(2) show ?thesis
      by (simp only: out)
  qed
  have top: "group_sum ''Team'' ''Fantasy Points'' df t \<le> snd g"
    if t: "t \<in> teams_of df" and nt: "t \<notin> set (map fst ?out)" and g: "g \<in> set ?out" for t g
  proof -
    from t keys(2) have "t \<in> fst ` set ?a"
      by simp
    then obtain h where h: "h \<in> set ?a" and fh: "t = fst h"
      by (rule imageE)
    have "set ?a = set (take 10 ?a) \<union> set (drop 10 ?a)"
      by (simp only: set_append [symmetric] append_take_drop_id)
    with h have "h \<in> set (take 10 ?a) \<or> h \<in> set (drop 10 ?a)"
      by simp
    moreover from nt fh have "h \<notin> set (take 10 ?a)"
      by (auto simp: out)
    ultimately have hd: "h \<in> set (drop 10 ?a)"
      by simp
    from g have gt: "g \<in> set (take 10 ?a)"
      by (simp only: out)
    from all_groups_sorted [OF assms(1)] gt hd have "snd h \<le> snd g"
      by (rule sorted_wrt_take_drop)
    moreover from keys(4) h fh have "snd h = group_sum ''Team'' ''Fantasy Points'' df t"
      by simp
    ultimately show ?thesis
      by simp
  qed
  from d sub len sums all top show ?thesis
    by blast
qed

theorem team_stats_top_ten_witness:
  "sorts_descending insertion_argsort_totals
   \<and> lists_every_key (\<lambda>ks. ks)
   \<and> Missing \<notin> teams_of two_teams
   \<and> card (teams_of two_teams) \<le> 10
   \<and> set (map fst (team_stats (\<lambda>ks. ks) insertion_argsort_totals two_teams)) = teams_of two_teams
   \<and> length (team_stats (\<lambda>ks. ks) insertion_argsort_totals two_teams) = 2
   \<and> team_stats (\<lambda>ks. ks) insertion_argsort_totals two_teams
       = [(Str ''TOR'', 9), (Str ''MTL'', 13 / 2)]"
proof -
  have v: "team_stats (\<lambda>ks. ks) insertion_argsort_totals two_teams
       = [(Str ''TOR'', 9), (Str ''MTL'', 13 / 2)]"
    by code_simp
  have m: "Missing \<notin> teams_of two_teams"
    by code_simp
  have c: "card (teams_of two_teams) = 2"
    by code_simp
  from team_stats_top_ten [OF insertion_argsort_totals_sorts identity_lists_every_key m]
  have "length (team_stats (\<lambda>ks. ks) insertion_argsort_totals two_teams)
          = min 10 (card (teams_of two_teams))"
    and "card (teams_of two_teams) \<le> 10
          \<longrightarrow> set (map fst (team_stats (\<lambda>ks. ks) insertion_argsort_totals two_teams))
                = teams_of two_teams"
    by blast+
  with c m v insertion_argsort_totals_sorts identity_lists_every_key show ?thesis
    by simp
qed

text \<open>
  With eleven teams of one player each, the team with the smallest total has no group
  in the result: ten groups for eleven teams.
\<close>

theorem team_stats_omits_a_team:
  "Str ''T11'' \<in> teams_of eleven_teams
   \<and> Str ''T11'' \<notin> set (map fst (team_stats (\<lambda>ks. ks) insertion_argsort_totals eleven_teams))
   \<and> card (teams_of eleven_teams) = 11
   \<and> length (team_stats (\<lambda>ks. ks) insertion_argsort_totals eleven_teams) = 10"
  by code_simp

section \<open>Positions in the combined ranking\<close>

lemma assign_column_other:
  "c \<noteq> c' \<Longrightarrow> map (\<lambda>r. r c) (rows (assign_column c' f df)) = map (\<lambda>r. r c) (rows df)"
  by (simp add: assign_column_def)

lemma assign_column_same:
  "map (\<lambda>r. r c) (rows (assign_column c f df)) = map f (rows df)"
  by (simp add: assign_column_def)

lemma assign_column_columns:
  "set (columns (assign_column c f df)) = insert c (set (columns df))"
  by (auto simp: assign_column_def)

lemma assign_constants_other:
  "c \<notin> set cs \<Longrightarrow> map (\<lambda>r. r c) (rows (assign_constants cs v df)) = map (\<lambda>r. r c) (rows df)"
  by (induction cs arbitrary: df) (simp_all add: assign_column_other)

lemma assign_constants_columns:
  "set (columns (assign_constants cs v df)) = set cs \<union> set (columns df)"
  by (induction cs arbitrary: df) (auto simp: assign_column_columns)

lemma select_columns_column:
  assumes "select_columns cols df = Inr d" "c \<in> set cols"
  shows "map (\<lambda>r. r c) (rows d) = map (\<lambda>r. r c) (rows df)" and "columns d = cols"
  using assms by (auto simp: select_columns_def split: if_splits)

lemma concat_frames_column:
  assumes "c \<in> set (columns a)" "c \<in> set (columns b)"
  shows "map (\<lambda>r. r c) (rows (concat_frames a b))
       = map (\<lambda>r. r c) (rows a) @ map (\<lambda>r. r c) (rows b)"
  using assms by (simp add: concat_frames_def)

lemma sort_values_desc_mset:
  assumes "rearranges argsort"
  shows "mset (rows (sort_values_desc argsort k df)) = mset (rows df)"
proof -
  from assms have "mset (argsort (map (\<lambda>r. r k) (rows df))) = mset [0..<length (rows df)]"
    by (simp add: rearranges_def)
  then have "mset (map (\<lambda>i. rows df ! i) (argsort (map (\<lambda>r. r k) (rows df)))) = mset (rows df)"
    by (rule rearranged_mset)
  then show ?thesis
    by (simp add: sort_values_desc_def)
qed

lemma assign_range_other:
  "c \<noteq> c' \<Longrightarrow> map (\<lambda>r. r c) (rows (assign_range c' df)) = map (\<lambda>r. r c) (rows df)"
  by (rule nth_equalityI) (simp_all add: assign_range_def del: upt_Suc)

lemma merge_and_sort_positions:
  assumes "rearranges argsort"
    and "set skater_cols \<subseteq> set (columns skaters)"
    and "set goalie_cols \<subseteq> set (columns goalies)"
  shows "\<exists>d. merge_and_sort argsort skaters goalies = Inr d
           \<and> mset (map (\<lambda>r. r ''Pos'') (rows d))
               = mset (map (\<lambda>r. r ''Pos'') (rows skaters))
                 + mset (map (\<lambda>r. Str ''G'') (rows goalies))"
proof -
  from select_columns_ok [OF assms(2)] obtain s0 where
    s0: "select_columns skater_cols skaters = Inr s0"
    by blast
  from select_columns_ok [OF assms(3)] obtain g0 where
    g0: "select_columns goalie_cols goalies = Inr g0" and lg: "length (rows g0) = length (rows goalies)"
    by blast
  have pos: "''Pos'' \<in> set skater_cols"
    by (simp add: skater_cols_def)
  define s1 where "s1 = assign_column ''Player Type'' (\<lambda>r. Str ''Skater'') s0"
  define s2 where "s2 = assign_constants [''W'', ''SV'', ''SO'', ''SV%'', ''GAA''] (Num 0) s1"
  define g1 where "g1 = assign_column ''Player Type'' (\<lambda>r. Str ''Goalie'') g0"
  define g2 where "g2 = assign_column ''Pos'' (\<lambda>r. Str ''G'') g1"
  define g3 where "g3 = assign_constants
      [''G'', ''A'', ''PTS'', ''PIM'', ''PPG'', ''PPP'', ''SOG'', ''HIT'', ''BLK''] (Num 0) g2"
  define d where "d = sort_values_desc argsort fantasy_points (concat_frames s2 g3)"
  have m: "merge_and_sort argsort skaters goalies = Inr d"
    by (simp add: merge_and_sort_def s0 g0 bind_error_def Let_def d_def g3_def g2_def g1_def
        s2_def s1_def)
  have sp: "map (\<lambda>r. r ''Pos'') (rows s2) = map (\<lambda>r. r ''Pos'') (rows skaters)"
    by (simp add: s2_def s1_def assign_constants_other assign_column_other
        select_columns_column(1) [OF s0 pos])
  have "''Pos'' \<notin> set [''G'', ''A'', ''PTS'', ''PIM'', ''PPG'', ''PPP'', ''SOG'', ''HIT'', ''BLK'']"
    by simp
  then have "map (\<lambda>r. r ''Pos'') (rows g3) = map (\<lambda>r. r ''Pos'') (rows g2)"
    unfolding g3_def by (rule assign_constants_other)
  also have "\<dots> = map (\<lambda>r. Str ''G'') (rows g1)"
    unfolding g2_def by (rule assign_column_same)
  also have "\<dots> = map (\<lambda>r. Str ''G'') (rows goalies)"
    by (rule nth_equalityI) (simp_all add: g1_def assign_column_rows lg)
  finally have gp: "map (\<lambda>r. r ''Pos'') (rows g3) = map (\<lambda>r. Str ''G'') (rows goalies)" .
  have cs: "''Pos'' \<in> set (columns s2)"
    by (simp add: s2_def s1_def assign_constants_columns assign_column_columns
        select_columns_column(2) [OF s0 pos] pos)
  have cg: "''Pos'' \<in> set (columns g3)"
    by (simp add: g3_def g2_def assign_constants_columns assign_column_columns)
  have "mset (map (\<lambda>r. r ''Pos'') (rows d)) = image_mset (\<lambda>r. r ''Pos'') (mset (rows d))"
    by simp
  also have "\<dots> = image_mset (\<lambda>r. r ''Pos'') (mset (rows (concat_frames s2 g3)))"
    by (simp only: d_def sort_values_desc_mset [OF assms(1)])
  also have "\<dots> = mset (map (\<lambda>r. r ''Pos'') (rows (concat_frames s2 g3)))"
    by simp
  also have "\<dots> = mset (map (\<lambda>r. r ''Pos'') (rows skaters)) + mset (map (\<lambda>r. Str ''G'') (rows goalies))"
    by (simp only: concat_frames_column [OF cs cg] sp gp mset_append)
  finally show ?thesis
    using m by blast
qed

lemma ranking_positions:
  assumes "rearranges argsort"
    and "set skater_cols \<subseteq> set (columns skaters)"
    and "set goalie_cols \<subseteq> set (columns goalies)"
  shows "\<exists>c. create_combined_rankings argsort skaters goalies = Inr c
           \<and> mset (map (\<lambda>r. r ''Pos'') (rows c))
               = mset (map (\<lambda>r. r ''Pos'') (rows skaters))
                 + mset (map (\<lambda>r. Str ''G'') (rows goalies))"
proof -
  from merge_and_sort_positions [OF assms] obtain d where
    d: "merge_and_sort argsort skaters goalies = Inr d"
    and p: "mset (map (\<lambda>r. r ''Pos'') (rows d))
               = mset (map (\<lambda>r. r ''Pos'') (rows skaters))
                 + mset (map (\<lambda>r. Str ''G'') (rows goalies))"
    by blast
  have "create_combined_rankings argsort skaters goalies = Inr (assign_range ''Rank'' d)"
    by (simp add: create_combined_rankings_def d bind_error_def)
  moreover have "map (\<lambda>r. r ''Pos'') (rows (assign_range ''Rank'' d)) = map (\<lambda>r. r ''Pos'') (rows d)"
    by (rule assign_range_other) simp
  then have "mset (map (\<lambda>r. r ''Pos'') (rows (assign_range ''Rank'' d)))
               = mset (map (\<lambda>r. r ''Pos'') (rows skaters))
                 + mset (map (\<lambda>r. Str ''G'') (rows goalies))"
    by (simp only: p)
  ultimately show ?thesis
    by (intro exI conjI)
qed

section \<open>The summary metrics\<close>

lemma filter_position_empty:
  "p \<notin> set (map (\<lambda>r. r ''Pos'') rs) \<Longrightarrow> filter (\<lambda>r. r ''Pos'' = p) rs = []"
  by (auto simp: filter_empty_conv)

text \<open>
  Claim C3. For two scored skaters, a centre and a left wing, and a goalie frame with no
  rows, the ranking is built, and the summary metrics then raise IndexError: the Top
  Goalie metric takes the first row of the empty selection of rows with position G,
  with no test for emptiness. On the same ranking the Defense tab, which tests the
  selection before using it, shows its warning.
\<close>
theorem top_goalie_raises_without_goalies:
  "bind_error (create_combined_rankings insertion_argsort scored_skaters no_goalies)
     summary_metrics = Inl IndexError
   \<and> bind_error (create_combined_rankings insertion_argsort scored_skaters no_goalies)
       (\<lambda>c. Inr (tab_warning (defense_tab c))) = Inr (Some ''No Defensemen found in the data.'')"
proof -
  have s: "set skater_cols \<subseteq> set (columns scored_skaters)"
    and g: "set goalie_cols \<subseteq> set (columns no_goalies)"
    by (simp_all add: scored_skaters_def no_goalies_def)
  have sp: "map (\<lambda>r. r ''Pos'') (rows scored_skaters) = [Str ''C'', Str ''LW'']"
    by (simp add: scored_skaters_def)
  have gp: "rows no_goalies = []"
    by (simp add: no_goalies_def)
  from ranking_positions [OF insertion_argsort_rearranges s g] obtain c where
    c: "create_combined_rankings insertion_argsort scored_skaters no_goalies = Inr c"
    and p: "mset (map (\<lambda>r. r ''Pos'') (rows c)) = mset [Str ''C'', Str ''LW'']"
    by (auto simp only: sp gp list.map mset.simps add_0_right)
  from p have ps: "set (map (\<lambda>r. r ''Pos'') (rows c)) = set [Str ''C'', Str ''LW'']"
    by (rule mset_eq_setD)
  then have "Str ''G'' \<notin> set (map (\<lambda>r. r ''Pos'') (rows c))"
    by simp
  then have ng: "filter (\<lambda>r. r ''Pos'' = Str ''G'') (rows c) = []"
    by (rule filter_position_empty)
  from ps have "Str ''D'' \<notin> set (map (\<lambda>r. r ''Pos'') (rows c))"
    by simp
  then have nd: "filter (\<lambda>r. r ''Pos'' = Str ''D'') (rows c) = []"
    by (rule filter_position_empty)
  from ps have "rows c \<noteq> []"
    by auto
  then obtain r rs where rc: "rows c = r # rs"
    by (cases "rows c") simp_all
  have a: "summary_metrics c = Inl IndexError"
    by (simp add: summary_metrics_def iloc0_def filter_rows_def bind_error_def rc [symmetric] ng)
       (simp add: rc)
  have b: "tab_warning (defense_tab c) = Some ''No Defensemen found in the data.''"
    by (simp add: defense_tab_def filter_rows_def nd)
  from a b show ?thesis
    by (simp add: c bind_error_def)
qed

end
